theory Spec2Isabelle
  imports Main
begin

section \<open>JavaScript values\<close>

text \<open>
  The client is TypeScript; its interfaces (\<open>ApiResponse\<close>, \<open>ProfileUpdateData\<close>, ...)
  are erased at run time, and what travels are JSON values. Response bodies and request
  payloads are therefore values of one type. A number is kept as its JavaScript string
  rendering (the result of ToString), which identifies it; an object is the list of its
  properties in the order of the JSON text.
\<close>

datatype js_value =
    JUndefined
  | JNull
  | JBool bool
  | JNum string
  | JStr string
  | JArr "js_value list"
  | JObj "(string \<times> js_value) list"

text \<open>The condition of \<open>if (v)\<close>, \<open>v || w\<close> and \<open>v && w\<close>.\<close>

fun truthy :: "js_value \<Rightarrow> bool" where
  "truthy JUndefined = False"
| "truthy JNull = False"
| "truthy (JBool b) = b"
| "truthy (JNum s) = (s \<noteq> ''0'')"
| "truthy (JStr s) = (s \<noteq> [])"
| "truthy (JArr xs) = True"
| "truthy (JObj kvs) = True"

text \<open>The values on which a property read \<open>v.k\<close> throws a TypeError.\<close>

fun nullish :: "js_value \<Rightarrow> bool" where
  "nullish JUndefined = True"
| "nullish JNull = True"
| "nullish v = False"

text \<open>
  The property read \<open>v.k\<close> on a value that is not nullish, for the property names the
  client reads (\<open>status\<close>, \<open>token\<close>, \<open>message\<close>, \<open>data\<close>, \<open>timetable\<close>): a
  primitive or an array has no such property; of a repeated key of an object the last
  one counts, as in \<open>JSON.parse\<close>.
\<close>

fun get_property :: "js_value \<Rightarrow> string \<Rightarrow> js_value" where
  "get_property (JObj kvs) k = (case map_of (rev kvs) k of None \<Rightarrow> JUndefined | Some v \<Rightarrow> v)"
| "get_property v k = JUndefined"

text \<open>
  ToString, as applied by \<open>new Error(v)\<close> and by a template literal: an array joins its
  elements with commas, the nullish ones as empty strings.
\<close>

fun to_string :: "js_value \<Rightarrow> string" and join_elements :: "js_value list \<Rightarrow> string" where
  "to_string JUndefined = ''undefined''"
| "to_string JNull = ''null''"
| "to_string (JBool b) = (if b then ''true'' else ''false'')"
| "to_string (JNum s) = s"
| "to_string (JStr s) = s"
| "to_string (JArr xs) = join_elements xs"
| "to_string (JObj kvs) = ''[object Object]''"
| "join_elements [] = []"
| "join_elements [x] = (if nullish x then [] else to_string x)"
| "join_elements (x # y # ys) =
     (if nullish x then [] else to_string x) @ '','' @ join_elements (y # ys)"

section \<open>Requests, responses and errors\<close>

text \<open>
  The configuration of a request as axios hands it to the transport. Only the headers
  the client itself sets are modelled.
\<close>

record request =
  meth :: string
  baseURL :: string
  url :: string
  timeout :: nat
  headers :: "string \<rightharpoonup> string"
  body :: js_value

text \<open>A response: the HTTP status code and the parsed body (\<open>response.data\<close>).\<close>

record http_response =
  status :: nat
  data :: js_value

text \<open>
  A thrown value. \<open>new Error(m)\<close> has only a message; an \<open>AxiosError\<close> also has
  \<open>isAxiosError\<close>, a \<open>code\<close> (\<open>ECONNABORTED\<close> for a timeout) and, when the server
  answered, the \<open>response\<close>.
\<close>

record js_error =
  isAxiosError :: bool
  message :: string
  code :: "string option"
  response :: "http_response option"

definition new_Error :: "string \<Rightarrow> js_error" where
  "new_Error m = \<lparr>isAxiosError = False, message = m, code = None, response = None\<rparr>"

text \<open>
  What the transport does with a request: it resolves with a response (axios resolves on
  a 2xx status), or rejects with an error.
\<close>

datatype outcome = Resolved http_response | Rejected js_error

section \<open>The client's state\<close>

record UserData =
  user_id :: string
  user_name :: string
  role :: string
  email :: string
  year :: "string option"
  branch :: "string option"
  department :: "string option"

text \<open>
  \<open>storage\<close> is AsyncStorage, the persistent key-value store of strings;
  \<open>currentUser\<close> is the private field of \<open>ApiService\<close>.
\<close>

record client_state =
  storage :: "string \<rightharpoonup> string"
  currentUser :: "UserData option"

definition BASE_URL :: string where
  "BASE_URL = ''https://mark77.onrender.com/''"

text \<open>The defaults of \<open>axios.create\<close> in the constructor.\<close>

definition defaults :: request where
  "defaults = \<lparr>meth = ''get'', baseURL = BASE_URL, url = [], timeout = 20000,
     headers = [''Content-Type'' \<mapsto> ''application/json''], body = JUndefined\<rparr>"

definition getToken :: "client_state \<Rightarrow> string option" where
  "getToken st = storage st ''token''"

definition setToken :: "client_state \<Rightarrow> string \<Rightarrow> client_state" where
  "setToken st token = st\<lparr>storage := (storage st)(''token'' \<mapsto> token)\<rparr>"

text \<open>The request interceptor: \<open>if (token)\<close> is false for null and for the empty string.\<close>

definition request_interceptor :: "client_state \<Rightarrow> request \<Rightarrow> request" where
  "request_interceptor st config =
     (case getToken st of
        None \<Rightarrow> config
      | Some token \<Rightarrow>
          if token \<noteq> [] then config\<lparr>headers := (headers config)(''Authorization'' \<mapsto> ''Bearer '' @ token)\<rparr>
          else config)"

text \<open>
  \<open>error.response?.data?.message || error.message || 'An unexpected error occurred'\<close>,
  wrapped in a new \<open>Error\<close>.
\<close>

definition response_message :: "js_error \<Rightarrow> js_value" where
  "response_message error =
     (case response error of
        None \<Rightarrow> JUndefined
      | Some r \<Rightarrow> if nullish (data r) then JUndefined else get_property (data r) ''message'')"

definition handleApiError :: "js_error \<Rightarrow> js_error" where
  "handleApiError error =
     new_Error
       (if truthy (response_message error) then to_string (response_message error)
        else if message error \<noteq> [] then message error
        else ''An unexpected error occurred'')"

text \<open>
  One call of the axios instance \<open>this.api\<close>: the request interceptor runs on the
  configuration, the transport answers, and the response interceptor passes a response
  on and turns a rejection into \<open>handleApiError\<close> of it. The result is the request as
  sent and what the \<open>await\<close> yields (\<open>Inl\<close>: it throws).
\<close>

definition api_request :: "client_state \<Rightarrow> request \<Rightarrow> outcome \<Rightarrow> request \<times> (js_error + http_response)" where
  "api_request st config out =
     (request_interceptor st config,
      case out of Resolved r \<Rightarrow> Inr r | Rejected error \<Rightarrow> Inl (handleApiError error))"

definition api_get :: "client_state \<Rightarrow> string \<Rightarrow> outcome \<Rightarrow> request \<times> (js_error + http_response)" where
  "api_get st path out = api_request st (defaults\<lparr>meth := ''get'', url := path\<rparr>) out"

definition api_post :: "client_state \<Rightarrow> string \<Rightarrow> js_value \<Rightarrow> outcome \<Rightarrow> request \<times> (js_error + http_response)" where
  "api_post st path payload out =
     api_request st (defaults\<lparr>meth := ''post'', url := path, body := payload\<rparr>) out"

definition api_put :: "client_state \<Rightarrow> string \<Rightarrow> js_value \<Rightarrow> outcome \<Rightarrow> request \<times> (js_error + http_response)" where
  "api_put st path payload out =
     api_request st (defaults\<lparr>meth := ''put'', url := path, body := payload\<rparr>) out"

section \<open>The operations of \<open>ApiService\<close>\<close>

text \<open>
  An operation takes the state and the transport's answer to its request, and yields the
  requests it sent, what its promise settles to (\<open>Inl\<close>: rejected with that error,
  \<open>Inr\<close>: resolved with that value) and the state it leaves.
\<close>

type_synonym op_result = "request list \<times> (js_error + js_value) \<times> client_state"

text \<open>
  The body shared by the operations without a \<open>try\<close>:
  \<open>const response = await this.api...; return response.data;\<close>
\<close>

definition return_data :: "request \<times> (js_error + http_response) \<Rightarrow> client_state \<Rightarrow> op_result" where
  "return_data awaited st =
     (case awaited of
        (req, Inl error) \<Rightarrow> ([req], Inl error, st)
      | (req, Inr res) \<Rightarrow> ([req], Inr (data res), st))"

text \<open>
  The same inside \<open>try { ... } catch (error) { throw this.handleApiError(error); }\<close>
  (\<open>register\<close>, \<open>checkout\<close>, \<open>getStudentAnalytics\<close>).
\<close>

definition return_data_caught :: "request \<times> (js_error + http_response) \<Rightarrow> client_state \<Rightarrow> op_result" where
  "return_data_caught awaited st =
     (case awaited of
        (req, Inl error) \<Rightarrow> ([req], Inl (handleApiError error), st)
      | (req, Inr res) \<Rightarrow> ([req], Inr (data res), st))"

text \<open>
  The TypeError of reading \<open>status\<close> from a null or undefined body, with the wording
  of the Hermes engine (other engines word it differently); it is an \<open>Error\<close> and not
  an \<open>AxiosError\<close>.
\<close>

definition status_of_nullish :: "js_value \<Rightarrow> js_error" where
  "status_of_nullish v = new_Error (''Cannot read property 'status' of '' @ to_string v)"

text \<open>The \<open>catch\<close> block of \<open>login\<close>.\<close>

definition login_catch :: "js_error \<Rightarrow> js_error" where
  "login_catch error =
     (if isAxiosError error \<and> response error = None
        then new_Error ''Please check your internet connection and try again''
      else if isAxiosError error \<and> code error = Some ''ECONNABORTED''
        then new_Error ''Request timed out. Please try again''
      else handleApiError error)"

text \<open>
  The \<open>try\<close> block of \<open>login\<close>, from the settled \<open>await this.api.post\<close> on: what it
  returns or throws, and the state. \<open>setToken\<close> is declared on strings; a token that
  is truthy and not a string is stored as its string conversion.
\<close>

definition login_try :: "js_error + http_response \<Rightarrow> client_state \<Rightarrow> (js_error + js_value) \<times> client_state" where
  "login_try awaited st =
     (case awaited of
        Inl error \<Rightarrow> (Inl error, st)
      | Inr res \<Rightarrow>
          if nullish (data res) then (Inl (status_of_nullish (data res)), st)
          else if get_property (data res) ''status'' = JStr ''success''
                  \<and> truthy (get_property (data res) ''token'')
            then (Inr (data res), setToken st (to_string (get_property (data res) ''token'')))
          else (Inl (new_Error ''Invalid login response''), st))"

definition login_config :: "string \<Rightarrow> string \<Rightarrow> request" where
  "login_config username password =
     defaults\<lparr>meth := ''post'', url := ''/shared/login'',
       body := JObj [(''username'', JStr username), (''password'', JStr password)],
       timeout := 15000,
       headers := (headers defaults)(''Content-Type'' \<mapsto> ''application/json'',
                                     ''Accept'' \<mapsto> ''application/json'')\<rparr>"

definition login :: "client_state \<Rightarrow> string \<Rightarrow> string \<Rightarrow> outcome \<Rightarrow> op_result" where
  "login st username password out =
     (case api_request st (login_config username password) out of
        (req, awaited) \<Rightarrow>
          (case login_try awaited st of
             (Inr v, st') \<Rightarrow> ([req], Inr v, st')
           | (Inl error, st') \<Rightarrow> ([req], Inl (login_catch error), st')))"

definition register :: "client_state \<Rightarrow> js_value \<Rightarrow> outcome \<Rightarrow> op_result" where
  "register st userData out = return_data_caught (api_post st ''/shared/register'' userData out) st"

definition logout :: "client_state \<Rightarrow> op_result" where
  "logout st = ([], Inr JUndefined,
     st\<lparr>storage := (storage st)(''token'' := None), currentUser := None\<rparr>)"

subsection \<open>Student APIs\<close>

definition getStudentProfile :: "client_state \<Rightarrow> outcome \<Rightarrow> op_result" where
  "getStudentProfile st out = return_data (api_get st ''/student/profile'' out) st"

definition updateStudentProfile :: "client_state \<Rightarrow> js_value \<Rightarrow> outcome \<Rightarrow> op_result" where
  "updateStudentProfile st d out = return_data (api_put st ''/student/profile'' d out) st"

definition markAttendance :: "client_state \<Rightarrow> js_value \<Rightarrow> outcome \<Rightarrow> op_result" where
  "markAttendance st d out = return_data (api_post st ''/student/mark_attendance'' d out) st"

definition getTimetableEntries :: "client_state \<Rightarrow> outcome \<Rightarrow> op_result" where
  "getTimetableEntries st out = return_data (api_get st ''/faculty/view_timetable'' out) st"

definition getTimetable :: "client_state \<Rightarrow> outcome \<Rightarrow> op_result" where
  "getTimetable st out = return_data (api_get st ''/student/view_timetable'' out) st"

definition getAttendanceHistory :: "client_state \<Rightarrow> outcome \<Rightarrow> op_result" where
  "getAttendanceHistory st out = return_data (api_get st ''/student/attendance_history'' out) st"

definition getAttendanceAnalytics :: "client_state \<Rightarrow> outcome \<Rightarrow> op_result" where
  "getAttendanceAnalytics st out = return_data (api_get st ''/student/attendance_analytics'' out) st"

definition getAttendanceReport :: "client_state \<Rightarrow> outcome \<Rightarrow> op_result" where
  "getAttendanceReport st out = return_data (api_get st ''/student/attendance_report'' out) st"

definition requestAttendanceCorrection :: "client_state \<Rightarrow> js_value \<Rightarrow> outcome \<Rightarrow> op_result" where
  "requestAttendanceCorrection st d out =
     return_data (api_post st ''/student/request_correction'' d out) st"

subsection \<open>Faculty APIs\<close>

definition getFacultyProfile :: "client_state \<Rightarrow> outcome \<Rightarrow> op_result" where
  "getFacultyProfile st out = return_data (api_get st ''/faculty/profile'' out) st"

definition updateFacultyProfile :: "client_state \<Rightarrow> js_value \<Rightarrow> outcome \<Rightarrow> op_result" where
  "updateFacultyProfile st d out = return_data (api_put st ''/faculty/profile'' d out) st"

definition enterTimetable :: "client_state \<Rightarrow> js_value \<Rightarrow> outcome \<Rightarrow> op_result" where
  "enterTimetable st d out = return_data (api_post st ''/faculty/enter_timetable'' d out) st"

definition getAttendanceStatistics :: "client_state \<Rightarrow> outcome \<Rightarrow> op_result" where
  "getAttendanceStatistics st out = return_data (api_get st ''/faculty/attendance_statistics'' out) st"

definition getDetainedStudents :: "client_state \<Rightarrow> outcome \<Rightarrow> op_result" where
  "getDetainedStudents st out = return_data (api_get st ''/faculty/detained_students'' out) st"

definition exportAttendance :: "client_state \<Rightarrow> outcome \<Rightarrow> op_result" where
  "exportAttendance st out = return_data (api_get st ''/faculty/export_attendance'' out) st"

definition getUnreadNotifications :: "client_state \<Rightarrow> outcome \<Rightarrow> op_result" where
  "getUnreadNotifications st out = return_data (api_get st ''/faculty/notifications'' out) st"

definition getOverallAnalytics :: "client_state \<Rightarrow> outcome \<Rightarrow> op_result" where
  "getOverallAnalytics st out = return_data (api_get st ''/faculty/overall_analytics'' out) st"

definition getPendingRequests :: "client_state \<Rightarrow> outcome \<Rightarrow> op_result" where
  "getPendingRequests st out = return_data (api_get st ''/faculty/pending_requests'' out) st"

definition checkout :: "client_state \<Rightarrow> outcome \<Rightarrow> op_result" where
  "checkout st out = return_data_caught (api_post st ''/student/checkout'' JUndefined out) st"

definition getStudentAnalytics :: "client_state \<Rightarrow> outcome \<Rightarrow> op_result" where
  "getStudentAnalytics st out = return_data_caught (api_get st ''/faculty/student_analytics'' out) st"

definition getStudentsByAttendance :: "client_state \<Rightarrow> outcome \<Rightarrow> op_result" where
  "getStudentsByAttendance st out = return_data (api_get st ''/faculty/students_by_attendance'' out) st"

definition updateAttendance :: "client_state \<Rightarrow> js_value \<Rightarrow> outcome \<Rightarrow> op_result" where
  "updateAttendance st d out = return_data (api_put st ''/faculty/update_attendance'' d out) st"

subsection \<open>All operations\<close>

text \<open>One constructor for each public method of \<open>ApiService\<close>, with its arguments.\<close>

datatype call =
    Login string string
  | Register js_value
  | Logout
  | GetStudentProfile
  | UpdateStudentProfile js_value
  | MarkAttendance js_value
  | GetTimetableEntries
  | GetTimetable
  | GetAttendanceHistory
  | GetAttendanceAnalytics
  | GetAttendanceReport
  | RequestAttendanceCorrection js_value
  | GetFacultyProfile
  | UpdateFacultyProfile js_value
  | EnterTimetable js_value
  | GetAttendanceStatistics
  | GetDetainedStudents
  | ExportAttendance
  | GetUnreadNotifications
  | GetOverallAnalytics
  | GetPendingRequests
  | Checkout
  | GetStudentAnalytics
  | GetStudentsByAttendance
  | UpdateAttendance js_value

fun perform :: "client_state \<Rightarrow> call \<Rightarrow> outcome \<Rightarrow> op_result" where
  "perform st (Login username password) out = login st username password out"
| "perform st (Register userData) out = register st userData out"
| "perform st Logout out = logout st"
| "perform st GetStudentProfile out = getStudentProfile st out"
| "perform st (UpdateStudentProfile d) out = updateStudentProfile st d out"
| "perform st (MarkAttendance d) out = markAttendance st d out"
| "perform st GetTimetableEntries out = getTimetableEntries st out"
| "perform st GetTimetable out = getTimetable st out"
| "perform st GetAttendanceHistory out = getAttendanceHistory st out"
| "perform st GetAttendanceAnalytics out = getAttendanceAnalytics st out"
| "perform st GetAttendanceReport out = getAttendanceReport st out"
| "perform st (RequestAttendanceCorrection d) out = requestAttendanceCorrection st d out"
| "perform st GetFacultyProfile out = getFacultyProfile st out"
| "perform st (UpdateFacultyProfile d) out = updateFacultyProfile st d out"
| "perform st (EnterTimetable d) out = enterTimetable st d out"
| "perform st GetAttendanceStatistics out = getAttendanceStatistics st out"
| "perform st GetDetainedStudents out = getDetainedStudents st out"
| "perform st ExportAttendance out = exportAttendance st out"
| "perform st GetUnreadNotifications out = getUnreadNotifications st out"
| "perform st GetOverallAnalytics out = getOverallAnalytics st out"
| "perform st GetPendingRequests out = getPendingRequests st out"
| "perform st Checkout out = checkout st out"
| "perform st GetStudentAnalytics out = getStudentAnalytics st out"
| "perform st GetStudentsByAttendance out = getStudentsByAttendance st out"
| "perform st (UpdateAttendance d) out = updateAttendance st d out"

fun is_login :: "call \<Rightarrow> bool" where
  "is_login (Login username password) = True"
| "is_login c = False"

definition sent :: "op_result \<Rightarrow> request list" where
  "sent r = fst r"

definition settled :: "op_result \<Rightarrow> js_error + js_value" where
  "settled r = fst (snd r)"

definition state_after :: "op_result \<Rightarrow> client_state" where
  "state_after r = snd (snd r)"

section \<open>Sequences of operations\<close>

text \<open>
  The state the constructor leaves: \<open>currentUser\<close> is null, over whatever AsyncStorage
  holds from earlier runs.
\<close>

definition constructed :: "(string \<rightharpoonup> string) \<Rightarrow> client_state" where
  "constructed s = \<lparr>storage = s, currentUser = None\<rparr>"

text \<open>
  The state after a sequence of operations, each with the transport's answer to it. The
  states the client can reach are those of \<open>run (constructed s) evs\<close>.
\<close>

fun run :: "client_state \<Rightarrow> (call \<times> outcome) list \<Rightarrow> client_state" where
  "run st [] = st"
| "run st ((c, out) # evs) = run (state_after (perform st c out)) evs"

section \<open>The sign-up form of the login screen\<close>

text \<open>
  \<open>formData\<close> of the login/sign-up screen (\<open>expo-login-signup.tsx\<close>); every field is a
  string, empty until the user fills it.
\<close>

record formData =
  form_id :: string
  form_name :: string
  form_role :: string
  form_email :: string
  form_password :: string
  form_year :: string
  form_branch :: string
  form_department :: string
  form_username :: string

text \<open>\<open>formData[field]\<close> for the field names \<open>validateForm\<close> uses.\<close>

definition form_field :: "formData \<Rightarrow> string \<Rightarrow> string" where
  "form_field fd field =
     (if field = ''id'' then form_id fd
      else if field = ''name'' then form_name fd
      else if field = ''email'' then form_email fd
      else if field = ''password'' then form_password fd
      else if field = ''year'' then form_year fd
      else if field = ''branch'' then form_branch fd
      else if field = ''department'' then form_department fd
      else [])"

definition requiredFields :: "formData \<Rightarrow> string list" where
  "requiredFields fd =
     [''id'', ''name'', ''email'', ''password''] @
     (if form_role fd = ''student'' then [''year'', ''branch'']
      else if form_role fd = ''faculty'' then [''department'']
      else [])"

text \<open>
  \<open>validateForm\<close>. The two tests by regular expression that follow the required
  fields (\<open>emailRegex.test\<close> and \<open>validatePassword\<close>) are parameters.
\<close>

definition validateForm :: "(string \<Rightarrow> bool) \<Rightarrow> (string \<Rightarrow> bool) \<Rightarrow> bool \<Rightarrow> formData \<Rightarrow> bool" where
  "validateForm emailRegex_test validatePassword isLogin fd =
     (if isLogin then \<not> (form_username fd = [] \<or> form_password fd = [])
      else if list_ex (\<lambda>field. form_field fd field = []) (requiredFields fd) then False
      else if \<not> emailRegex_test (form_email fd) then False
      else if \<not> validatePassword (form_password fd) then False
      else True)"

definition signupPayload :: "formData \<Rightarrow> js_value" where
  "signupPayload fd =
     JObj ([(''id'', JStr (form_id fd)), (''name'', JStr (form_name fd)),
            (''role'', JStr (form_role fd)), (''email'', JStr (form_email fd)),
            (''password'', JStr (form_password fd))] @
           (if form_role fd = ''student''
            then [(''year'', JStr (form_year fd)), (''branch'', JStr (form_branch fd))]
            else [(''department'', JStr (form_department fd))]))"

text \<open>
  \<open>handleSubmit\<close>: the requests it has the client send and the state it leaves (alerts
  and navigation are not modelled). After a login it writes the token and the role to
  AsyncStorage itself.
\<close>

definition handleSubmit ::
  "(string \<Rightarrow> bool) \<Rightarrow> (string \<Rightarrow> bool) \<Rightarrow> bool \<Rightarrow> formData \<Rightarrow> client_state \<Rightarrow> outcome
     \<Rightarrow> request list \<times> client_state" where
  "handleSubmit emailRegex_test validatePassword isLogin fd st out =
     (if \<not> validateForm emailRegex_test validatePassword isLogin fd then ([], st)
      else if isLogin then
        (case login st (form_username fd) (form_password fd) out of
           (reqs, Inr loginResponse, st') \<Rightarrow>
             if get_property loginResponse ''status'' = JStr ''success''
             then (reqs, st'\<lparr>storage := (storage st')
                     (''token'' \<mapsto> to_string (get_property loginResponse ''token''),
                      ''userRole'' \<mapsto> form_role fd)\<rparr>)
             else (reqs, st')
         | (reqs, Inl error, st') \<Rightarrow> (reqs, st'))
      else
        (case register st (signupPayload fd) out of (reqs, res, st') \<Rightarrow> (reqs, st')))"

section \<open>The requests sent and the results, operation by operation\<close>

lemmas op_defs =
  register_def logout_def getStudentProfile_def updateStudentProfile_def markAttendance_def
  getTimetableEntries_def getTimetable_def getAttendanceHistory_def getAttendanceAnalytics_def
  getAttendanceReport_def requestAttendanceCorrection_def getFacultyProfile_def
  updateFacultyProfile_def enterTimetable_def getAttendanceStatistics_def getDetainedStudents_def
  exportAttendance_def getUnreadNotifications_def getOverallAnalytics_def getPendingRequests_def
  checkout_def getStudentAnalytics_def getStudentsByAttendance_def updateAttendance_def

lemma headers_request_interceptor:
  "headers (request_interceptor st config) ''Authorization'' =
     (case getToken st of
        None \<Rightarrow> headers config ''Authorization''
      | Some t \<Rightarrow> if t = [] then headers config ''Authorization'' else Some (''Bearer '' @ t))"
  by (simp add: request_interceptor_def split: option.splits)

lemma sent_return_data [simp]:
  "sent (return_data (api_request st config out) st') = [request_interceptor st config]"
  by (simp add: sent_def return_data_def api_request_def split: outcome.splits)

lemma sent_return_data_caught [simp]:
  "sent (return_data_caught (api_request st config out) st') = [request_interceptor st config]"
  by (simp add: sent_def return_data_caught_def api_request_def split: outcome.splits)

lemma sent_login [simp]:
  "sent (login st u p out) = [request_interceptor st (login_config u p)]"
  by (simp add: sent_def login_def api_request_def split: prod.splits sum.splits)

lemma authorization_sent:
  "c \<noteq> Logout \<Longrightarrow>
     map (\<lambda>q. headers q ''Authorization'') (sent (perform st c out)) =
       [case getToken st of None \<Rightarrow> None
        | Some t \<Rightarrow> if t = [] then None else Some (''Bearer '' @ t)]"
  by (cases c)
     (simp_all add: op_defs api_get_def api_post_def api_put_def defaults_def login_config_def
        headers_request_interceptor split: option.splits)

lemma handleApiError_no_response:
  "response e = None \<Longrightarrow>
     handleApiError e = new_Error (if message e = [] then ''An unexpected error occurred'' else message e)"
  by (simp add: handleApiError_def response_message_def)

lemma handleApiError_new_Error:
  "m \<noteq> [] \<Longrightarrow> handleApiError (new_Error m) = new_Error m"
  by (simp add: handleApiError_def response_message_def new_Error_def)

lemma handleApiError_server_message:
  "response e = Some r \<Longrightarrow> get_property (data r) ''message'' = JStr m \<Longrightarrow> m \<noteq> [] \<Longrightarrow>
     handleApiError e = new_Error m"
  by (cases "data r") (simp_all add: handleApiError_def response_message_def)

lemma settled_return_data [simp]:
  "settled (return_data (api_request st config out) st') =
     (case out of Resolved r \<Rightarrow> Inr (data r) | Rejected e \<Rightarrow> Inl (handleApiError e))"
  by (simp add: settled_def return_data_def api_request_def split: outcome.splits)

lemma settled_return_data_caught [simp]:
  "settled (return_data_caught (api_request st config out) st') =
     (case out of Resolved r \<Rightarrow> Inr (data r)
      | Rejected e \<Rightarrow> Inl (handleApiError (handleApiError e)))"
  by (simp add: settled_def return_data_caught_def api_request_def split: outcome.splits)

lemma state_after_return_data [simp]:
  "state_after (return_data (api_request st config out) st') = st'"
  by (simp add: state_after_def return_data_def api_request_def split: outcome.splits)

lemma state_after_return_data_caught [simp]:
  "state_after (return_data_caught (api_request st config out) st') = st'"
  by (simp add: state_after_def return_data_caught_def api_request_def split: outcome.splits)

lemma settled_login_rejected:
  "settled (login st u p (Rejected e)) = Inl (handleApiError (handleApiError e))"
  by (simp add: settled_def login_def api_request_def login_try_def login_catch_def
      handleApiError_def new_Error_def)

lemma settled_login_resolved:
  "settled (login st u p (Resolved r)) =
     (if nullish (data r) then Inl (handleApiError (status_of_nullish (data r)))
      else if get_property (data r) ''status'' = JStr ''success'' \<and> truthy (get_property (data r) ''token'')
        then Inr (data r)
      else Inl (new_Error ''Invalid login response''))"
  by (simp add: settled_def login_def api_request_def login_try_def login_catch_def
      handleApiError_def response_message_def new_Error_def status_of_nullish_def)

lemma state_after_login:
  "state_after (login st u p out) =
     (case out of
        Rejected e \<Rightarrow> st
      | Resolved r \<Rightarrow>
          if \<not> nullish (data r) \<and> get_property (data r) ''status'' = JStr ''success''
               \<and> truthy (get_property (data r) ''token'')
          then setToken st (to_string (get_property (data r) ''token''))
          else st)"
  by (simp add: state_after_def login_def api_request_def login_try_def split: outcome.splits)

lemma settled_plain_resolved:
  "\<not> is_login c \<Longrightarrow> c \<noteq> Logout \<Longrightarrow> settled (perform st c (Resolved r)) = Inr (data r)"
  by (cases c) (simp_all add: op_defs api_get_def api_post_def api_put_def)

lemma settled_plain_rejected:
  "\<not> is_login c \<Longrightarrow> c \<noteq> Logout \<Longrightarrow>
     settled (perform st c (Rejected e)) = Inl (handleApiError e) \<or>
     settled (perform st c (Rejected e)) = Inl (handleApiError (handleApiError e))"
  by (cases c) (simp_all add: op_defs api_get_def api_post_def api_put_def)

lemma settled_rejected:
  "c \<noteq> Logout \<Longrightarrow>
     settled (perform st c (Rejected e)) = Inl (handleApiError e) \<or>
     settled (perform st c (Rejected e)) = Inl (handleApiError (handleApiError e))"
  by (cases c) (simp_all add: op_defs api_get_def api_post_def api_put_def settled_login_rejected)

lemma state_after_plain:
  "\<not> is_login c \<Longrightarrow> c \<noteq> Logout \<Longrightarrow> state_after (perform st c out) = st"
  by (cases c) (simp_all add: op_defs api_get_def api_post_def api_put_def)

lemma state_after_failed_login:
  "isl (settled (login st u p out)) \<Longrightarrow> state_after (login st u p out) = st"
  by (cases out) (auto simp add: settled_login_resolved state_after_login split: if_splits)

section \<open>The value a successful call returns\<close>

text \<open>
  C1, as the code has it: for every operation that sends a request, when the transport
  succeeds and the envelope's status is "success" (and, for login, its token is truthy),
  the operation returns the whole response envelope unmodified, for the student
  timetable too; it does not unwrap the data or the timetable field.
\<close>

theorem C1_success_returns_whole_envelope:
  assumes "c \<noteq> Logout"
    and "get_property (data r) ''status'' = JStr ''success''"
    and "is_login c \<longrightarrow> truthy (get_property (data r) ''token'')"
  shows "settled (perform st c (Resolved r)) = Inr (data r)"
proof (cases "is_login c")
  case False
  with assms(1) show ?thesis by (simp add: settled_plain_resolved)
next
  case True
  then obtain u p where c: "c = Login u p" by (cases c) simp_all
  from assms(2) have "\<not> nullish (data r)" by (cases "data r") simp_all
  with assms(2,3) True show ?thesis by (simp add: c settled_login_resolved)
qed

theorem C1_success_returns_whole_envelope_witness:
  "settled (perform \<lparr>storage = Map.empty, currentUser = None\<rparr> GetTimetable
      (Resolved \<lparr>status = 200, data = JObj [(''status'', JStr ''success''),
         (''timetable'', JArr [JObj [(''day'', JStr ''Monday'')]])]\<rparr>))
   = Inr (JObj [(''status'', JStr ''success''), (''timetable'', JArr [JObj [(''day'', JStr ''Monday'')]])])
   \<and> settled (perform \<lparr>storage = Map.empty, currentUser = None\<rparr> (Login ''alice'' ''Secret1!'')
      (Resolved \<lparr>status = 200, data = JObj [(''status'', JStr ''success''), (''token'', JStr ''T1'')]\<rparr>))
   = Inr (JObj [(''status'', JStr ''success''), (''token'', JStr ''T1'')])"
  using C1_success_returns_whole_envelope [of GetTimetable
      "\<lparr>status = 200, data = JObj [(''status'', JStr ''success''),
         (''timetable'', JArr [JObj [(''day'', JStr ''Monday'')]])]\<rparr>"
      "\<lparr>storage = Map.empty, currentUser = None\<rparr>"]
    C1_success_returns_whole_envelope [of "Login ''alice'' ''Secret1!''"
      "\<lparr>status = 200, data = JObj [(''status'', JStr ''success''), (''token'', JStr ''T1'')]\<rparr>"
      "\<lparr>storage = Map.empty, currentUser = None\<rparr>"]
  by simp

text \<open>
  C1 as stated fails: on a "success" envelope \<open>getStudentProfile\<close> does not return the
  envelope's data field, nor \<open>getTimetable\<close> its timetable field.
\<close>

theorem C1_data_field_counterexample:
  "settled (getStudentProfile \<lparr>storage = Map.empty, currentUser = None\<rparr>
      (Resolved \<lparr>status = 200, data = JObj [(''status'', JStr ''success''),
         (''data'', JObj [(''name'', JStr ''Alice'')])]\<rparr>))
   \<noteq> Inr (get_property (JObj [(''status'', JStr ''success''),
         (''data'', JObj [(''name'', JStr ''Alice'')])]) ''data'')
   \<and> settled (getTimetable \<lparr>storage = Map.empty, currentUser = None\<rparr>
      (Resolved \<lparr>status = 200, data = JObj [(''status'', JStr ''success''),
         (''timetable'', JArr [JObj [(''day'', JStr ''Monday'')]])]\<rparr>))
   \<noteq> Inr (get_property (JObj [(''status'', JStr ''success''),
         (''timetable'', JArr [JObj [(''day'', JStr ''Monday'')]])]) ''timetable'')"
  by (simp add: getStudentProfile_def getTimetable_def api_get_def)

section \<open>The bearer token on outgoing requests\<close>

text \<open>
  C2, as the code has it: logout sends nothing; every other operation sends exactly one
  request, whatever the store holds. That request carries \<open>Authorization: Bearer t\<close>
  when a non-empty token \<open>t\<close> is stored, and no Authorization header when no token or
  the empty string is stored. After logout no token is stored, and while no token is
  stored it stays so over every operation that is not a login that succeeds.
\<close>

theorem C2_bearer_header_iff_nonempty_token:
  "sent (perform st Logout out) = [] \<and>
   (c \<noteq> Logout \<longrightarrow>
      map (\<lambda>q. headers q ''Authorization'') (sent (perform st c out)) =
        [case getToken st of None \<Rightarrow> None
         | Some t \<Rightarrow> if t = [] then None else Some (''Bearer '' @ t)]) \<and>
   getToken (state_after (perform st Logout out)) = None \<and>
   (getToken st = None \<and> (is_login c \<longrightarrow> isl (settled (perform st c out)))
      \<longrightarrow> getToken (state_after (perform st c out)) = None)"
proof (intro conjI impI)
  show "sent (perform st Logout out) = []"
    by (simp add: logout_def sent_def)
next
  assume "c \<noteq> Logout"
  then show "map (\<lambda>q. headers q ''Authorization'') (sent (perform st c out)) =
      [case getToken st of None \<Rightarrow> None
       | Some t \<Rightarrow> if t = [] then None else Some (''Bearer '' @ t)]"
    by (rule authorization_sent)
next
  show "getToken (state_after (perform st Logout out)) = None"
    by (simp add: logout_def state_after_def getToken_def)
next
  assume a: "getToken st = None \<and> (is_login c \<longrightarrow> isl (settled (perform st c out)))"
  show "getToken (state_after (perform st c out)) = None"
  proof (cases "is_login c")
    case True
    then obtain u p where c: "c = Login u p" by (cases c) simp_all
    with a have "isl (settled (login st u p out))" by simp
    then have "state_after (login st u p out) = st" by (rule state_after_failed_login)
    with a c show ?thesis by simp
  next
    case False
    show ?thesis
    proof (cases "c = Logout")
      case True
      then show ?thesis by (simp add: logout_def state_after_def getToken_def)
    next
      case False
      with \<open>\<not> is_login c\<close> a show ?thesis by (simp add: state_after_plain)
    qed
  qed
qed

theorem C2_bearer_header_iff_nonempty_token_witness:
  "map (\<lambda>q. headers q ''Authorization'')
     (sent (perform \<lparr>storage = [''token'' \<mapsto> ''T1''], currentUser = None\<rparr> GetStudentProfile
        (Resolved \<lparr>status = 200, data = JObj [(''status'', JStr ''success'')]\<rparr>)))
   = [Some ''Bearer T1'']
   \<and> map (\<lambda>q. headers q ''Authorization'')
     (sent (perform \<lparr>storage = Map.empty, currentUser = None\<rparr> (MarkAttendance (JObj []))
        (Resolved \<lparr>status = 200, data = JObj [(''status'', JStr ''success'')]\<rparr>)))
   = [None]
   \<and> getToken (state_after (perform \<lparr>storage = Map.empty, currentUser = None\<rparr>
        (Login ''alice'' ''wrong'')
        (Resolved \<lparr>status = 200, data = JObj [(''status'', JStr ''error'')]\<rparr>)))
   = None"
proof -
  have failed: "isl (settled (perform \<lparr>storage = Map.empty, currentUser = None\<rparr>
        (Login ''alice'' ''wrong'')
        (Resolved \<lparr>status = 200, data = JObj [(''status'', JStr ''error'')]\<rparr>)))"
    by (simp add: settled_login_resolved)
  show ?thesis
    using failed
      C2_bearer_header_iff_nonempty_token [of
        "\<lparr>storage = [''token'' \<mapsto> ''T1''], currentUser = None\<rparr>"
        "Resolved \<lparr>status = 200, data = JObj [(''status'', JStr ''success'')]\<rparr>" GetStudentProfile]
      C2_bearer_header_iff_nonempty_token [of
        "\<lparr>storage = Map.empty, currentUser = None\<rparr>"
        "Resolved \<lparr>status = 200, data = JObj [(''status'', JStr ''success'')]\<rparr>" "MarkAttendance (JObj [])"]
      C2_bearer_header_iff_nonempty_token [of
        "\<lparr>storage = Map.empty, currentUser = None\<rparr>"
        "Resolved \<lparr>status = 200, data = JObj [(''status'', JStr ''error'')]\<rparr>" "Login ''alice'' ''wrong''"]
    by (simp add: getToken_def)
qed

text \<open>
  C2 as stated fails for the empty string: it is a token string present in the store,
  and the request carries no bearer header for it.
\<close>

theorem C2_empty_token_counterexample:
  "getToken \<lparr>storage = [''token'' \<mapsto> ''''], currentUser = None\<rparr> = Some ''''
   \<and> map (\<lambda>q. headers q ''Authorization'')
     (sent (getStudentProfile \<lparr>storage = [''token'' \<mapsto> ''''], currentUser = None\<rparr>
        (Resolved \<lparr>status = 200, data = JObj [(''status'', JStr ''success'')]\<rparr>)))
   = [None]
   \<and> map (\<lambda>q. headers q ''Authorization'')
     (sent (getStudentProfile \<lparr>storage = [''token'' \<mapsto> ''''], currentUser = None\<rparr>
        (Resolved \<lparr>status = 200, data = JObj [(''status'', JStr ''success'')]\<rparr>)))
   \<noteq> [Some (''Bearer '' @ '''')]"
  by (simp add: getStudentProfile_def api_get_def getToken_def headers_request_interceptor defaults_def)

section \<open>Envelopes that report a failure\<close>

text \<open>
  C3, as the code has it: for every operation other than login, when the transport
  succeeds and the envelope's status is not "success", the operation returns the
  envelope as its value and raises nothing. An error whose message is the message field
  of the response body is raised, by every operation, when the transport rejects with
  a response whose body has a non-empty string message.
\<close>

theorem C3_failure_envelope_is_returned:
  "(\<not> is_login c \<and> c \<noteq> Logout \<and> get_property (data r) ''status'' \<noteq> JStr ''success''
      \<longrightarrow> settled (perform st c (Resolved r)) = Inr (data r)) \<and>
   (c \<noteq> Logout \<and> response e = Some r' \<and> get_property (data r') ''message'' = JStr m \<and> m \<noteq> []
      \<longrightarrow> settled (perform st c (Rejected e)) = Inl (new_Error m))"
proof (intro conjI impI)
  assume "\<not> is_login c \<and> c \<noteq> Logout \<and> get_property (data r) ''status'' \<noteq> JStr ''success''"
  then show "settled (perform st c (Resolved r)) = Inr (data r)"
    by (simp add: settled_plain_resolved)
next
  assume a: "c \<noteq> Logout \<and> response e = Some r' \<and> get_property (data r') ''message'' = JStr m \<and> m \<noteq> []"
  then have "handleApiError e = new_Error m"
    by (simp add: handleApiError_server_message)
  moreover from a have "handleApiError (new_Error m) = new_Error m"
    by (simp add: handleApiError_new_Error)
  ultimately show "settled (perform st c (Rejected e)) = Inl (new_Error m)"
    using a settled_rejected [of c st e] by auto
qed

theorem C3_failure_envelope_is_returned_witness:
  "settled (perform \<lparr>storage = [''token'' \<mapsto> ''T1''], currentUser = None\<rparr>
      (MarkAttendance (JObj [(''wifi_name'', JStr ''lab''), (''block_name'', JStr ''A'')]))
      (Resolved \<lparr>status = 200, data = JObj [(''status'', JStr ''error''),
         (''message'', JStr ''Not on campus wifi'')]\<rparr>))
   = Inr (JObj [(''status'', JStr ''error''), (''message'', JStr ''Not on campus wifi'')])
   \<and> settled (perform \<lparr>storage = [''token'' \<mapsto> ''T1''], currentUser = None\<rparr>
      (MarkAttendance (JObj [(''wifi_name'', JStr ''lab''), (''block_name'', JStr ''A'')]))
      (Rejected \<lparr>isAxiosError = True, message = ''Request failed with status code 400'',
         code = Some ''ERR_BAD_REQUEST'',
         response = Some \<lparr>status = 400, data = JObj [(''status'', JStr ''error''),
           (''message'', JStr ''Not on campus wifi'')]\<rparr>\<rparr>))
   = Inl (new_Error ''Not on campus wifi'')"
  using C3_failure_envelope_is_returned [of
      "MarkAttendance (JObj [(''wifi_name'', JStr ''lab''), (''block_name'', JStr ''A'')])"
      "\<lparr>status = 200, data = JObj [(''status'', JStr ''error''),
         (''message'', JStr ''Not on campus wifi'')]\<rparr>"
      "\<lparr>storage = [''token'' \<mapsto> ''T1''], currentUser = None\<rparr>"
      "\<lparr>isAxiosError = True, message = ''Request failed with status code 400'',
         code = Some ''ERR_BAD_REQUEST'',
         response = Some \<lparr>status = 400, data = JObj [(''status'', JStr ''error''),
           (''message'', JStr ''Not on campus wifi'')]\<rparr>\<rparr>"
      "\<lparr>status = 400, data = JObj [(''status'', JStr ''error''),
           (''message'', JStr ''Not on campus wifi'')]\<rparr>"
      "''Not on campus wifi''"]
  by simp

text \<open>
  C3 as stated fails: on a 2xx response whose envelope has status "error",
  \<open>markAttendance\<close> raises no error with the envelope's message.
\<close>

theorem C3_raises_envelope_message_counterexample:
  "settled (markAttendance \<lparr>storage = [''token'' \<mapsto> ''T1''], currentUser = None\<rparr>
      (JObj [(''wifi_name'', JStr ''lab''), (''block_name'', JStr ''A'')])
      (Resolved \<lparr>status = 200, data = JObj [(''status'', JStr ''error''),
         (''message'', JStr ''Not on campus wifi'')]\<rparr>))
   \<noteq> Inl (new_Error ''Not on campus wifi'')
   \<and> \<not> isl (settled (markAttendance \<lparr>storage = [''token'' \<mapsto> ''T1''], currentUser = None\<rparr>
      (JObj [(''wifi_name'', JStr ''lab''), (''block_name'', JStr ''A'')])
      (Resolved \<lparr>status = 200, data = JObj [(''status'', JStr ''error''),
         (''message'', JStr ''Not on campus wifi'')]\<rparr>)))"
  by (simp add: markAttendance_def api_post_def)

section \<open>Transport failures without a response\<close>

text \<open>
  C4, as the code has it: for every operation other than login, a transport failure
  whose cause is a timeout (no response, code \<open>ECONNABORTED\<close>) raises an error carrying
  the transport error's own message, or "An unexpected error occurred" when that is
  empty. The fixed timeout message and the fixed connectivity message, which only
  login's handler names, are distinct errors.
\<close>

theorem C4_timeout_keeps_transport_message:
  "(\<not> is_login c \<and> c \<noteq> Logout \<and> response e = None \<and> code e = Some ''ECONNABORTED''
      \<longrightarrow> settled (perform st c (Rejected e)) =
            Inl (new_Error (if message e = [] then ''An unexpected error occurred'' else message e))) \<and>
   new_Error ''Request timed out. Please try again''
     \<noteq> new_Error ''Please check your internet connection and try again''"
proof (intro conjI impI)
  assume a: "\<not> is_login c \<and> c \<noteq> Logout \<and> response e = None \<and> code e = Some ''ECONNABORTED''"
  define m where "m = (if message e = [] then ''An unexpected error occurred'' else message e)"
  have "m \<noteq> []" by (simp add: m_def)
  then have "handleApiError (new_Error m) = new_Error m"
    by (rule handleApiError_new_Error)
  moreover from a have "handleApiError e = new_Error m"
    by (simp add: handleApiError_no_response m_def)
  ultimately show "settled (perform st c (Rejected e)) =
      Inl (new_Error (if message e = [] then ''An unexpected error occurred'' else message e))"
    using a settled_plain_rejected [of c st e] unfolding m_def by auto
next
  show "new_Error ''Request timed out. Please try again''
     \<noteq> new_Error ''Please check your internet connection and try again''"
    by (simp add: new_Error_def)
qed

theorem C4_timeout_keeps_transport_message_witness:
  "settled (perform \<lparr>storage = [''token'' \<mapsto> ''T1''], currentUser = None\<rparr> GetAttendanceHistory
      (Rejected \<lparr>isAxiosError = True, message = ''timeout of 20000ms exceeded'',
         code = Some ''ECONNABORTED'', response = None\<rparr>))
   = Inl (new_Error ''timeout of 20000ms exceeded'')"
  using C4_timeout_keeps_transport_message [of GetAttendanceHistory
      "\<lparr>isAxiosError = True, message = ''timeout of 20000ms exceeded'',
         code = Some ''ECONNABORTED'', response = None\<rparr>"
      "\<lparr>storage = [''token'' \<mapsto> ''T1''], currentUser = None\<rparr>"]
  by simp

text \<open>
  C4 as stated fails: on a timeout \<open>getStudentProfile\<close> does not raise the fixed
  timeout message.
\<close>

theorem C4_fixed_timeout_message_counterexample:
  "settled (getStudentProfile \<lparr>storage = [''token'' \<mapsto> ''T1''], currentUser = None\<rparr>
      (Rejected \<lparr>isAxiosError = True, message = ''timeout of 20000ms exceeded'',
         code = Some ''ECONNABORTED'', response = None\<rparr>))
   \<noteq> Inl (new_Error ''Request timed out. Please try again'')"
  by (simp add: getStudentProfile_def api_get_def handleApiError_def response_message_def new_Error_def)

text \<open>
  C5, as the code has it: for every operation other than login, a transport failure
  without a response raises an error carrying the transport error's own message, which
  depends on the cause, or "An unexpected error occurred" when that message is empty.
\<close>

theorem C5_no_response_keeps_transport_message:
  assumes "\<not> is_login c" and "c \<noteq> Logout" and "response e = None"
  shows "settled (perform st c (Rejected e)) =
           Inl (new_Error (if message e = [] then ''An unexpected error occurred'' else message e))"
proof -
  define m where "m = (if message e = [] then ''An unexpected error occurred'' else message e)"
  have "m \<noteq> []" by (simp add: m_def)
  then have "handleApiError (new_Error m) = new_Error m"
    by (rule handleApiError_new_Error)
  moreover from assms(3) have "handleApiError e = new_Error m"
    by (simp add: handleApiError_no_response m_def)
  ultimately show ?thesis
    using assms(1,2) settled_plain_rejected [of c st e] unfolding m_def by auto
qed

theorem C5_no_response_keeps_transport_message_witness:
  "settled (perform \<lparr>storage = Map.empty, currentUser = None\<rparr> Checkout
      (Rejected \<lparr>isAxiosError = True, message = ''Network Error'',
         code = Some ''ERR_NETWORK'', response = None\<rparr>))
   = Inl (new_Error ''Network Error'')
   \<and> settled (perform \<lparr>storage = Map.empty, currentUser = None\<rparr> Checkout
      (Rejected \<lparr>isAxiosError = True, message = '''', code = None, response = None\<rparr>))
   = Inl (new_Error ''An unexpected error occurred'')"
  using C5_no_response_keeps_transport_message [of Checkout
      "\<lparr>isAxiosError = True, message = ''Network Error'',
         code = Some ''ERR_NETWORK'', response = None\<rparr>"
      "\<lparr>storage = Map.empty, currentUser = None\<rparr>"]
    C5_no_response_keeps_transport_message [of Checkout
      "\<lparr>isAxiosError = True, message = '''', code = None, response = None\<rparr>"
      "\<lparr>storage = Map.empty, currentUser = None\<rparr>"]
  by simp

text \<open>
  C5 as stated fails: without a response \<open>getOverallAnalytics\<close> does not raise the
  fixed connectivity message.
\<close>

theorem C5_fixed_connectivity_message_counterexample:
  "settled (getOverallAnalytics \<lparr>storage = Map.empty, currentUser = None\<rparr>
      (Rejected \<lparr>isAxiosError = True, message = ''Network Error'',
         code = Some ''ERR_NETWORK'', response = None\<rparr>))
   \<noteq> Inl (new_Error ''Please check your internet connection and try again'')"
  by (simp add: getOverallAnalytics_def api_get_def handleApiError_def response_message_def new_Error_def)

text \<open>
  What login raises on the same failures: the rejection reaches its \<open>catch\<close> block as
  the plain \<open>Error\<close> the response interceptor made of it, \<open>axios.isAxiosError\<close> is
  false for it, and neither fixed message is produced.
\<close>

lemma login_transport_failure:
  "response e = None \<Longrightarrow>
     settled (login st username password (Rejected e)) =
       Inl (new_Error (if message e = [] then ''An unexpected error occurred'' else message e))"
  by (simp add: settled_login_rejected handleApiError_no_response handleApiError_new_Error)

lemma login_timeout_example:
  "settled (login \<lparr>storage = Map.empty, currentUser = None\<rparr> ''alice'' ''Secret1!''
      (Rejected \<lparr>isAxiosError = True, message = ''timeout of 15000ms exceeded'',
         code = Some ''ECONNABORTED'', response = None\<rparr>))
   = Inl (new_Error ''timeout of 15000ms exceeded'')"
  by (simp add: login_transport_failure)

section \<open>Login, the stored token and the next request\<close>

text \<open>
  C6: after \<open>login("alice", "Secret1!")\<close>, answered with the envelope
  \<open>{status: "success", token: "T1"}\<close>, the store holds "T1" under the key \<open>token\<close>,
  and a profile fetch issued next, by the student or the faculty operation, sends one
  request, with the header \<open>Authorization: Bearer T1\<close>.
\<close>

theorem C6_login_then_profile_fetch:
  "storage (state_after (login st ''alice'' ''Secret1!''
      (Resolved \<lparr>status = n, data = JObj [(''status'', JStr ''success''), (''token'', JStr ''T1'')]\<rparr>)))
     ''token'' = Some ''T1''
   \<and> map (\<lambda>q. headers q ''Authorization'')
       (sent (getStudentProfile (state_after (login st ''alice'' ''Secret1!''
          (Resolved \<lparr>status = n, data = JObj [(''status'', JStr ''success''), (''token'', JStr ''T1'')]\<rparr>)))
          out)) = [Some ''Bearer T1'']
   \<and> map (\<lambda>q. headers q ''Authorization'')
       (sent (getFacultyProfile (state_after (login st ''alice'' ''Secret1!''
          (Resolved \<lparr>status = n, data = JObj [(''status'', JStr ''success''), (''token'', JStr ''T1'')]\<rparr>)))
          out)) = [Some ''Bearer T1'']"
  by (simp add: state_after_login setToken_def getStudentProfile_def getFacultyProfile_def
      api_get_def headers_request_interceptor getToken_def)

section \<open>What the operations do to the persistent store\<close>

text \<open>
  C7: an operation other than login and logout leaves the persistent store as it was,
  whether it succeeds or fails; so does a login that fails; a login that succeeds writes
  the token of the envelope it returns under the key \<open>token\<close> and changes nothing
  else; logout removes the key \<open>token\<close> and changes nothing else.
\<close>

theorem C7_only_login_writes_only_logout_deletes:
  "(\<not> is_login c \<and> c \<noteq> Logout \<longrightarrow> storage (state_after (perform st c out)) = storage st) \<and>
   (isl (settled (perform st (Login username password) out))
      \<longrightarrow> storage (state_after (perform st (Login username password) out)) = storage st) \<and>
   (settled (perform st (Login username password) out) = Inr v
      \<longrightarrow> storage (state_after (perform st (Login username password) out)) =
            (storage st)(''token'' \<mapsto> to_string (get_property v ''token''))) \<and>
   storage (state_after (perform st Logout out)) = (storage st)(''token'' := None)"
proof (intro conjI impI)
  assume "\<not> is_login c \<and> c \<noteq> Logout"
  then show "storage (state_after (perform st c out)) = storage st"
    by (simp add: state_after_plain)
next
  assume "isl (settled (perform st (Login username password) out))"
  then show "storage (state_after (perform st (Login username password) out)) = storage st"
    by (cases out) (auto simp add: settled_login_resolved state_after_login split: if_splits)
next
  assume "settled (perform st (Login username password) out) = Inr v"
  then show "storage (state_after (perform st (Login username password) out)) =
      (storage st)(''token'' \<mapsto> to_string (get_property v ''token''))"
    by (cases out)
       (auto simp add: settled_login_resolved settled_login_rejected state_after_login
          setToken_def split: if_splits)
next
  show "storage (state_after (perform st Logout out)) = (storage st)(''token'' := None)"
    by (simp add: logout_def state_after_def)
qed

theorem C7_only_login_writes_only_logout_deletes_witness:
  "storage (state_after (perform \<lparr>storage = [''token'' \<mapsto> ''T0''], currentUser = None\<rparr>
      (UpdateAttendance (JObj [(''attendance_id'', JStr ''a1''), (''new_status'', JStr ''present'')]))
      (Rejected \<lparr>isAxiosError = True, message = ''Network Error'', code = Some ''ERR_NETWORK'',
         response = None\<rparr>)))
   = [''token'' \<mapsto> ''T0'']
   \<and> storage (state_after (perform \<lparr>storage = [''token'' \<mapsto> ''T0''], currentUser = None\<rparr>
      (Login ''alice'' ''Secret1!'')
      (Resolved \<lparr>status = 200, data = JObj [(''status'', JStr ''error'')]\<rparr>)))
   = [''token'' \<mapsto> ''T0'']
   \<and> storage (state_after (perform \<lparr>storage = [''token'' \<mapsto> ''T0''], currentUser = None\<rparr>
      (Login ''alice'' ''Secret1!'')
      (Resolved \<lparr>status = 200, data = JObj [(''status'', JStr ''success''), (''token'', JStr ''T1'')]\<rparr>)))
   = [''token'' \<mapsto> ''T1'']
   \<and> storage (state_after (perform \<lparr>storage = [''token'' \<mapsto> ''T0''], currentUser = None\<rparr> Logout
      (Resolved \<lparr>status = 200, data = JNull\<rparr>)))
   = Map.empty"
proof -
  let ?st = "\<lparr>storage = [''token'' \<mapsto> ''T0''], currentUser = None\<rparr>"
  have bad: "isl (settled (perform ?st (Login ''alice'' ''Secret1!'')
      (Resolved \<lparr>status = 200, data = JObj [(''status'', JStr ''error'')]\<rparr>)))"
    by (simp add: settled_login_resolved)
  have good: "settled (perform ?st (Login ''alice'' ''Secret1!'')
      (Resolved \<lparr>status = 200, data = JObj [(''status'', JStr ''success''), (''token'', JStr ''T1'')]\<rparr>))
    = Inr (JObj [(''status'', JStr ''success''), (''token'', JStr ''T1'')])"
    by (simp add: settled_login_resolved)
  show ?thesis
    using bad good
      C7_only_login_writes_only_logout_deletes [of
        "UpdateAttendance (JObj [(''attendance_id'', JStr ''a1''), (''new_status'', JStr ''present'')])"
        ?st
        "Rejected \<lparr>isAxiosError = True, message = ''Network Error'', code = Some ''ERR_NETWORK'',
           response = None\<rparr>"]
      C7_only_login_writes_only_logout_deletes [of Logout ?st
        "Resolved \<lparr>status = 200, data = JObj [(''status'', JStr ''error'')]\<rparr>"
        "''alice''" "''Secret1!''"]
      C7_only_login_writes_only_logout_deletes [of Logout ?st
        "Resolved \<lparr>status = 200, data = JObj [(''status'', JStr ''success''), (''token'', JStr ''T1'')]\<rparr>"
        "''alice''" "''Secret1!''"
        "JObj [(''status'', JStr ''success''), (''token'', JStr ''T1'')]"]
      C7_only_login_writes_only_logout_deletes [of Logout ?st
        "Resolved \<lparr>status = 200, data = JNull\<rparr>"]
    by simp
qed

section \<open>Registration\<close>

lemma body_request_interceptor [simp]: "body (request_interceptor st config) = body config"
  by (simp add: request_interceptor_def split: option.splits)

lemma url_request_interceptor [simp]: "url (request_interceptor st config) = url config"
  by (simp add: request_interceptor_def split: option.splits)

lemma meth_request_interceptor [simp]: "meth (request_interceptor st config) = meth config"
  by (simp add: request_interceptor_def split: option.splits)

text \<open>
  C8: for every payload, state and answer, \<open>register\<close> sends exactly one request, a
  POST to \<open>/shared/register\<close> whose body is the payload as given; it checks nothing
  about the payload.
\<close>

theorem C8_register_forwards_payload:
  "sent (register st userData out) =
     [request_interceptor st (defaults\<lparr>meth := ''post'', url := ''/shared/register'', body := userData\<rparr>)]
   \<and> map body (sent (register st userData out)) = [userData]
   \<and> map url (sent (register st userData out)) = [''/shared/register'']
   \<and> map meth (sent (register st userData out)) = [''post'']"
  by (simp add: register_def api_post_def)

text \<open>A student's payload without \<open>year\<close> goes out unchanged.\<close>

lemma register_student_without_year:
  "map body (sent (register \<lparr>storage = Map.empty, currentUser = None\<rparr>
      (JObj [(''name'', JStr ''Bob''), (''role'', JStr ''student''),
             (''email'', JStr ''bob@example.org''), (''branch'', JStr ''CSE'')])
      out))
   = [JObj [(''name'', JStr ''Bob''), (''role'', JStr ''student''),
            (''email'', JStr ''bob@example.org''), (''branch'', JStr ''CSE'')]]"
  by (simp add: register_def api_post_def)

text \<open>
  The sign-up form is where an incomplete registration stops: with the role "student"
  and no year, \<open>validateForm\<close> is false and \<open>handleSubmit\<close> returns before it calls
  the client.
\<close>

lemma signup_without_year_is_not_submitted:
  assumes "form_role fd = ''student''" and "form_year fd = []"
  shows "\<not> validateForm emailRegex_test validatePassword False fd"
    and "handleSubmit emailRegex_test validatePassword False fd st out = ([], st)"
proof -
  from assms show v: "\<not> validateForm emailRegex_test validatePassword False fd"
    by (simp add: validateForm_def requiredFields_def form_field_def)
  then show "handleSubmit emailRegex_test validatePassword False fd st out = ([], st)"
    by (simp add: handleSubmit_def)
qed

section \<open>Login responses that are not accepted\<close>

text \<open>
  C9: when the transport succeeds and the response carries an envelope whose status is
  not "success", or whose token is not truthy (absent and empty are the two cases of
  the claim; null, false and 0 are the others), login raises the error "Invalid login
  response" and leaves the state, so the store, unchanged.
\<close>

theorem C9_invalid_login_response:
  assumes "\<not> nullish (data r)"
    and "get_property (data r) ''status'' \<noteq> JStr ''success''
         \<or> \<not> truthy (get_property (data r) ''token'')"
  shows "settled (login st username password (Resolved r)) = Inl (new_Error ''Invalid login response'')
       \<and> state_after (login st username password (Resolved r)) = st"
  using assms by (auto simp add: settled_login_resolved state_after_login)

theorem C9_invalid_login_response_witness:
  "settled (login \<lparr>storage = [''token'' \<mapsto> ''T0''], currentUser = None\<rparr> ''alice'' ''wrong''
      (Resolved \<lparr>status = 200, data = JObj [(''status'', JStr ''error''),
         (''message'', JStr ''Invalid credentials''), (''token'', JStr ''T1'')]\<rparr>))
   = Inl (new_Error ''Invalid login response'')
   \<and> settled (login \<lparr>storage = [''token'' \<mapsto> ''T0''], currentUser = None\<rparr> ''alice'' ''Secret1!''
      (Resolved \<lparr>status = 200, data = JObj [(''status'', JStr ''success'')]\<rparr>))
   = Inl (new_Error ''Invalid login response'')
   \<and> settled (login \<lparr>storage = [''token'' \<mapsto> ''T0''], currentUser = None\<rparr> ''alice'' ''Secret1!''
      (Resolved \<lparr>status = 200, data = JObj [(''status'', JStr ''success''), (''token'', JStr '''')]\<rparr>))
   = Inl (new_Error ''Invalid login response'')
   \<and> storage (state_after (login \<lparr>storage = [''token'' \<mapsto> ''T0''], currentUser = None\<rparr> ''alice'' ''Secret1!''
      (Resolved \<lparr>status = 200, data = JObj [(''status'', JStr ''success''), (''token'', JStr '''')]\<rparr>)))
   = [''token'' \<mapsto> ''T0'']"
  using C9_invalid_login_response [of
      "\<lparr>status = 200, data = JObj [(''status'', JStr ''error''),
         (''message'', JStr ''Invalid credentials''), (''token'', JStr ''T1'')]\<rparr>"
      "\<lparr>storage = [''token'' \<mapsto> ''T0''], currentUser = None\<rparr>" "''alice''" "''wrong''"]
    C9_invalid_login_response [of
      "\<lparr>status = 200, data = JObj [(''status'', JStr ''success'')]\<rparr>"
      "\<lparr>storage = [''token'' \<mapsto> ''T0''], currentUser = None\<rparr>" "''alice''" "''Secret1!''"]
    C9_invalid_login_response [of
      "\<lparr>status = 200, data = JObj [(''status'', JStr ''success''), (''token'', JStr '''')]\<rparr>"
      "\<lparr>storage = [''token'' \<mapsto> ''T0''], currentUser = None\<rparr>" "''alice''" "''Secret1!''"]
  by simp

section \<open>The current-user field\<close>

lemma currentUser_perform:
  "c \<noteq> Logout \<Longrightarrow> currentUser (state_after (perform st c out)) = currentUser st"
proof (cases "is_login c")
  case False
  assume "c \<noteq> Logout"
  with False show ?thesis by (simp add: state_after_plain)
next
  case True
  then obtain u p where "c = Login u p" by (cases c) simp_all
  then show ?thesis
    by (simp add: state_after_login setToken_def split: outcome.splits)
qed

lemma currentUser_logout: "currentUser (state_after (perform st Logout out)) = None"
  by (simp add: logout_def state_after_def)

lemma currentUser_run:
  "currentUser st = None \<Longrightarrow> currentUser (run st evs) = None"
proof (induction evs arbitrary: st)
  case Nil
  then show ?case by simp
next
  case (Cons ev evs)
  obtain c out where ev: "ev = (c, out)" by (cases ev)
  have "currentUser (state_after (perform st c out)) = None"
    using Cons.prems currentUser_logout [of st out] currentUser_perform [of c st out]
    by (cases "c = Logout") auto
  then show ?case by (simp add: ev Cons.IH)
qed

text \<open>
  C10: in every state the client reaches from its construction, by any sequence of
  operations and answers, \<open>currentUser\<close> is null; an operation other than logout leaves
  the field as it is (login too, successful or not), and logout sets it to null.
\<close>

theorem C10_currentUser_is_always_null:
  "currentUser (run (constructed s) evs) = None \<and>
   (c \<noteq> Logout \<longrightarrow> currentUser (state_after (perform st c out)) = currentUser st) \<and>
   currentUser (state_after (perform st Logout out)) = None"
proof (intro conjI impI)
  show "currentUser (run (constructed s) evs) = None"
    by (rule currentUser_run) (simp add: constructed_def)
next
  assume "c \<noteq> Logout"
  then show "currentUser (state_after (perform st c out)) = currentUser st"
    by (rule currentUser_perform)
next
  show "currentUser (state_after (perform st Logout out)) = None"
    by (rule currentUser_logout)
qed

theorem C10_currentUser_is_always_null_witness:
  "currentUser (run (constructed Map.empty)
      [(Login ''alice'' ''Secret1!'',
          Resolved \<lparr>status = 200, data = JObj [(''status'', JStr ''success''), (''token'', JStr ''T1'')]\<rparr>),
       (GetStudentProfile,
          Resolved \<lparr>status = 200, data = JObj [(''status'', JStr ''success'')]\<rparr>)]) = None
   \<and> currentUser (state_after (perform (constructed Map.empty) (Login ''alice'' ''Secret1!'')
      (Resolved \<lparr>status = 200, data = JObj [(''status'', JStr ''success''), (''token'', JStr ''T1'')]\<rparr>)))
     = None"
  using C10_currentUser_is_always_null [of Map.empty
      "[(Login ''alice'' ''Secret1!'',
          Resolved \<lparr>status = 200, data = JObj [(''status'', JStr ''success''), (''token'', JStr ''T1'')]\<rparr>),
       (GetStudentProfile,
          Resolved \<lparr>status = 200, data = JObj [(''status'', JStr ''success'')]\<rparr>)]"
      "Login ''alice'' ''Secret1!''" "constructed Map.empty"
      "Resolved \<lparr>status = 200, data = JObj [(''status'', JStr ''success''), (''token'', JStr ''T1'')]\<rparr>"]
  by (simp add: constructed_def)

end
